theory Spec2Isabelle
  imports Complex_Main
begin

section \<open>Shared data model (models.py)\<close>

text \<open>
  Python floats are modelled as exact reals: comparisons, sums, products and quotients are
  the mathematical ones, and rounding, overflow and underflow of IEEE doubles are outside
  the model. Strings are byte strings (\<open>char list\<close>).
\<close>

datatype OptionType = CALL | PUT

datatype CurrencyPair = EURUSD | GBPUSD | USDJPY | AUDUSD | USDCAD | USDCHF

text \<open>The \<open>.value\<close> of the two string enums.\<close>

fun OptionType_value :: "OptionType \<Rightarrow> string" where
  "OptionType_value CALL = ''CALL''"
| "OptionType_value PUT = ''PUT''"

fun CurrencyPair_value :: "CurrencyPair \<Rightarrow> string" where
  "CurrencyPair_value EURUSD = ''EURUSD''"
| "CurrencyPair_value GBPUSD = ''GBPUSD''"
| "CurrencyPair_value USDJPY = ''USDJPY''"
| "CurrencyPair_value AUDUSD = ''AUDUSD''"
| "CurrencyPair_value USDCAD = ''USDCAD''"
| "CurrencyPair_value USDCHF = ''USDCHF''"

text \<open>Members in declaration order, as iterating the enum class yields them.\<close>

definition OptionType_members :: "OptionType list" where
  "OptionType_members = [CALL, PUT]"

definition CurrencyPair_members :: "CurrencyPair list" where
  "CurrencyPair_members = [EURUSD, GBPUSD, USDJPY, AUDUSD, USDCAD, USDCHF]"

text \<open>
  Calling an enum class on a value looks the member up by value; the \<open>ValueError\<close> of
  a value that no member has is \<open>None\<close>.
\<close>

definition OptionType_of :: "string \<Rightarrow> OptionType option" where
  "OptionType_of s = find (\<lambda>m. OptionType_value m = s) OptionType_members"

definition CurrencyPair_of :: "string \<Rightarrow> CurrencyPair option" where
  "CurrencyPair_of s = find (\<lambda>m. CurrencyPair_value m = s) CurrencyPair_members"

record RawTrade =
  TradeID :: string
  Underlying :: string
  Notional :: real
  NotionalCurrency :: string
  Spot :: real
  Strike :: real
  Vol :: real
  RateDomestic :: real
  RateForeign :: real
  Expiry :: real
  OptionType :: string

record ValidatedTrade =
  trade_id :: string
  currency_pair :: CurrencyPair
  option_type :: OptionType
  strike :: real
  notional :: real
  notional_currency :: string
  time_to_expiry :: real
  spot :: real
  volatility :: real
  domestic_rate :: real
  foreign_rate :: real

subsection \<open>Exceptions and library text\<close>

text \<open>
  One entry of a pydantic \<open>ValidationError\<close>: a violated \<open>Field\<close> bound (field name,
  bound) or a \<open>ValueError\<close> raised inside a model validator (its message).
\<close>

datatype line_error =
    greater_than string real
  | greater_than_equal string real
  | less_than_equal string real
  | value_error string

datatype exn = ValueError string | ZeroDivisionError

text \<open>
  Text produced by the Python runtime and by pydantic, which the repository does not
  define: \<open>str\<close> of a float, the \<open>.2%\<close> format of a float, and \<open>str\<close> of a
  pydantic \<open>ValidationError\<close>. The functions that build messages take them as a
  parameter.
\<close>

record py_text =
  str_float :: "real \<Rightarrow> string"
  format_pct2 :: "real \<Rightarrow> string"
  str_ValidationError :: "line_error list \<Rightarrow> string"

fun str_exn :: "exn \<Rightarrow> string" where
  "str_exn (ValueError msg) = msg"
| "str_exn ZeroDivisionError = ''float division by zero''"

subsection \<open>String helpers\<close>

text \<open>\<open>str.upper\<close> on ASCII text: the letters a to z move to A to Z.\<close>

definition upper_char :: "char \<Rightarrow> char" where
  "upper_char c =
     (let n = (of_char c :: nat) in if 97 \<le> n \<and> n \<le> 122 then char_of (n - 32) else c)"

definition upper :: "string \<Rightarrow> string" where
  "upper s = map upper_char s"

text \<open>\<open>s.replace(c, "")\<close> for a one-character \<open>c\<close>.\<close>

definition remove_char :: "char \<Rightarrow> string \<Rightarrow> string" where
  "remove_char c s = filter (\<lambda>d. d \<noteq> c) s"

text \<open>
  \<open>repr\<close> of a string without quotes, backslashes or control characters, and \<open>str\<close> of
  a list of such strings.
\<close>

definition repr_str :: "string \<Rightarrow> string" where
  "repr_str s = [CHR 0x27] @ s @ [CHR 0x27]"

fun join :: "string \<Rightarrow> string list \<Rightarrow> string" where
  "join sep [] = []"
| "join sep [x] = x"
| "join sep (x # y # ys) = x @ sep @ join sep (y # ys)"

definition str_list :: "string list \<Rightarrow> string" where
  "str_list xs = ''['' @ join '', '' (map repr_str xs) @ '']''"

subsection \<open>ValidatedTrade: field bounds and the model validator\<close>

text \<open>The \<open>Field\<close> bounds, in declaration order; every violated bound is reported.\<close>

definition field_errors :: "ValidatedTrade \<Rightarrow> line_error list" where
  "field_errors t =
     (if strike t > 0 then [] else [greater_than ''strike'' 0]) @
     (if notional t > 0 then [] else [greater_than ''notional'' 0]) @
     (if time_to_expiry t > 0 then
        (if time_to_expiry t \<le> 10 then [] else [less_than_equal ''time_to_expiry'' 10])
      else [greater_than ''time_to_expiry'' 0]) @
     (if spot t > 0 then [] else [greater_than ''spot'' 0]) @
     (if volatility t > 0 then
        (if volatility t \<le> 5 then [] else [less_than_equal ''volatility'' 5])
      else [greater_than ''volatility'' 0]) @
     (if domestic_rate t \<ge> - (1 / 10) then
        (if domestic_rate t \<le> 1 then [] else [less_than_equal ''domestic_rate'' 1])
      else [greater_than_equal ''domestic_rate'' (- (1 / 10))]) @
     (if foreign_rate t \<ge> - (1 / 10) then
        (if foreign_rate t \<le> 1 then [] else [less_than_equal ''foreign_rate'' 1])
      else [greater_than_equal ''foreign_rate'' (- (1 / 10))])"

definition validate_business_rules :: "py_text \<Rightarrow> ValidatedTrade \<Rightarrow> exn + ValidatedTrade" where
  "validate_business_rules P t =
     (if volatility t > 1 then
        Inl (ValueError (''Volatility '' @ format_pct2 P (volatility t) @
                         '' seems unreasonably high''))
      else if notional_currency t \<notin> set [''USD'', ''JPY''] then
        Inl (ValueError (''NotionalCurrency must be USD or JPY, got '' @ notional_currency t))
      else Inr t)"

text \<open>
  Constructing a \<open>ValidatedTrade\<close>: the field bounds first; the \<open>after\<close> validator runs
  only on a model whose fields passed, and its \<open>ValueError\<close> becomes a
  \<open>ValidationError\<close> with one \<open>value_error\<close> entry.
\<close>

definition ValidatedTrade_init :: "py_text \<Rightarrow> ValidatedTrade \<Rightarrow> line_error list + ValidatedTrade" where
  "ValidatedTrade_init P t =
     (case field_errors t of
        [] \<Rightarrow>
          (case validate_business_rules P t of
             Inl e \<Rightarrow> Inl [value_error (str_exn e)]
           | Inr t' \<Rightarrow> Inr t')
      | e # es \<Rightarrow> Inl (e # es))"

record ValidationResult =
  valid_trades :: "ValidatedTrade list"
  errors :: "string list"

definition is_valid :: "ValidationResult \<Rightarrow> bool" where
  "is_valid r = (length (errors r) = 0)"

section \<open>Validator (services/validator.py)\<close>

definition validate_single_trade :: "py_text \<Rightarrow> RawTrade \<Rightarrow> exn + ValidatedTrade" where
  "validate_single_trade P raw_trade =
     (let option_type_str = upper (OptionType raw_trade) in
      case OptionType_of option_type_str of
        None \<Rightarrow>
          Inl (ValueError (''Invalid OptionType '' @ [CHR 0x27] @ OptionType raw_trade @
                 [CHR 0x27] @ ''. '' @ ''Must be one of: '' @
                 str_list (map OptionType_value OptionType_members)))
      | Some option_type' \<Rightarrow>
          (let currency_pair_normalized =
                 upper (remove_char CHR '' '' (remove_char CHR ''/'' (Underlying raw_trade))) in
           case CurrencyPair_of currency_pair_normalized of
             None \<Rightarrow>
               Inl (ValueError (''Invalid Underlying '' @ [CHR 0x27] @ Underlying raw_trade @
                      [CHR 0x27] @ ''. '' @ ''Must be one of: EUR/USD, GBP/USD, or USD/JPY''))
           | Some currency_pair' \<Rightarrow>
               if Expiry raw_trade \<le> 0 then
                 Inl (ValueError (''Expiry must be positive, got '' @
                        str_float P (Expiry raw_trade)))
               else
                 (case ValidatedTrade_init P
                    \<lparr>trade_id = TradeID raw_trade,
                     currency_pair = currency_pair',
                     option_type = option_type',
                     strike = Strike raw_trade,
                     notional = Notional raw_trade,
                     notional_currency = NotionalCurrency raw_trade,
                     time_to_expiry = Expiry raw_trade,
                     spot = Spot raw_trade,
                     volatility = Vol raw_trade,
                     domestic_rate = RateDomestic raw_trade,
                     foreign_rate = RateForeign raw_trade\<rparr> of
                    Inl e \<Rightarrow> Inl (ValueError (''Validation error: '' @ str_ValidationError P e))
                  | Inr validated_trade \<Rightarrow> Inr validated_trade)))"

text \<open>
  The loop of \<open>validate_trades\<close>, with its two accumulators: a record that validates is
  appended to \<open>valid_trades\<close>, and the exception of one that does not is caught and its
  message appended to \<open>errors\<close>.
\<close>

fun validate_loop ::
  "py_text \<Rightarrow> RawTrade list \<Rightarrow> ValidatedTrade list \<Rightarrow> string list \<Rightarrow>
   ValidatedTrade list \<times> string list" where
  "validate_loop P [] valid errs = (valid, errs)"
| "validate_loop P (raw_trade # rest) valid errs =
     (case validate_single_trade P raw_trade of
        Inr validated_trade \<Rightarrow> validate_loop P rest (valid @ [validated_trade]) errs
      | Inl e \<Rightarrow>
          validate_loop P rest valid
            (errs @ [''Trade '' @ TradeID raw_trade @ '': '' @ str_exn e]))"

definition validate_trades :: "py_text \<Rightarrow> RawTrade list \<Rightarrow> ValidationResult" where
  "validate_trades P raw_trades =
     (case validate_loop P raw_trades [] [] of
        (valid, errs) \<Rightarrow> \<lparr>valid_trades = valid, errors = errs\<rparr>)"

section \<open>The standard normal distribution (scipy.stats.norm)\<close>

text \<open>
  \<open>norm.pdf\<close> and \<open>norm.cdf\<close> belong to scipy, not to the repository; they are modelled
  as the exact density and distribution function of the standard normal law.
  \<open>gauss_int x\<close> is the integral of \<open>exp (- t\<^sup>2 / 2)\<close> from \<open>0\<close> to \<open>x\<close>, given by its
  Maclaurin series, and \<open>gauss_mass\<close> is its limit at infinity (the value \<open>sqrt (pi / 2)\<close>
  is not needed below). \<open>norm_cdf\<close> is the integral of the kernel from minus infinity
  to \<open>x\<close> divided by its integral over the whole line.
\<close>

definition gauss_term :: "real \<Rightarrow> nat \<Rightarrow> real" where
  "gauss_term x k = (- (1 / 2)) ^ k * x ^ (2 * k + 1) / (fact k * real (2 * k + 1))"

definition gauss_int :: "real \<Rightarrow> real" where
  "gauss_int x = (\<Sum>k. gauss_term x k)"

definition gauss_mass :: real where
  "gauss_mass = Sup (range gauss_int)"

definition norm_cdf :: "real \<Rightarrow> real" where
  "norm_cdf x = (gauss_mass + gauss_int x) / (2 * gauss_mass)"

definition norm_pdf :: "real \<Rightarrow> real" where
  "norm_pdf x = exp (- (x\<^sup>2) / 2) / sqrt (2 * pi)"

text \<open>The coefficients of the series of \<open>gauss_int\<close> as a power series in \<open>x\<close>.\<close>

definition gk_coeff :: "nat \<Rightarrow> real" where
  "gk_coeff n =
     (if odd n then (- (1 / 2)) ^ ((n - 1) div 2) / (fact ((n - 1) div 2) * real n) else 0)"

section \<open>Pricing engine (services/pricing_engine.py)\<close>

text \<open>
  The engine receives trades that passed validation, so that \<open>S / K\<close>, \<open>T\<close> and
  \<open>sigma\<close> are positive where the logarithm, the square root and the quotient are taken.
\<close>

definition calculate_d1_d2 :: "ValidatedTrade \<Rightarrow> real \<times> real" where
  "calculate_d1_d2 trade =
     (let S = spot trade;
          K = strike trade;
          T = time_to_expiry trade;
          r_d = domestic_rate trade;
          r_f = foreign_rate trade;
          sigma = volatility trade;
          d1 = (ln (S / K) + (r_d - r_f + 0.5 * sigma\<^sup>2) * T) / (sigma * sqrt T);
          d2 = d1 - sigma * sqrt T
      in (d1, d2))"

definition calculate_pv :: "ValidatedTrade \<Rightarrow> real" where
  "calculate_pv trade =
     (let S = spot trade;
          K = strike trade;
          T = time_to_expiry trade;
          r_d = domestic_rate trade;
          r_f = foreign_rate trade;
          N = notional trade;
          (d1, d2) = calculate_d1_d2 trade;
          df_domestic = exp (- r_d * T);
          df_foreign = exp (- r_f * T);
          pv_per_unit =
            (if option_type trade = CALL then
               S * df_foreign * norm_cdf d1 - K * df_domestic * norm_cdf d2
             else
               K * df_domestic * norm_cdf (- d2) - S * df_foreign * norm_cdf (- d1))
      in pv_per_unit * N)"

definition calculate_delta :: "ValidatedTrade \<Rightarrow> real" where
  "calculate_delta trade =
     (let T = time_to_expiry trade;
          r_f = foreign_rate trade;
          N = notional trade;
          (d1, _) = calculate_d1_d2 trade;
          df_foreign = exp (- r_f * T);
          delta_per_unit =
            (if option_type trade = CALL then df_foreign * norm_cdf d1
             else df_foreign * (norm_cdf d1 - 1))
      in delta_per_unit * N)"

definition calculate_vega :: "ValidatedTrade \<Rightarrow> real" where
  "calculate_vega trade =
     (let S = spot trade;
          T = time_to_expiry trade;
          r_f = foreign_rate trade;
          N = notional trade;
          (d1, _) = calculate_d1_d2 trade;
          df_foreign = exp (- r_f * T);
          vega_per_unit = S * df_foreign * norm_pdf d1 * sqrt T
      in vega_per_unit * N / 100)"

text \<open>
  The formulas of the specification, written as it writes them: \<open>d1\<close>, \<open>d2\<close> and the
  present value per unit of a call and of a put.
\<close>

definition spec_d1 :: "real \<Rightarrow> real \<Rightarrow> real \<Rightarrow> real \<Rightarrow> real \<Rightarrow> real \<Rightarrow> real" where
  "spec_d1 S K T r_d r_f \<sigma> = (ln (S / K) + (r_d - r_f + 0.5 * \<sigma>\<^sup>2) * T) / (\<sigma> * sqrt T)"

definition spec_d2 :: "real \<Rightarrow> real \<Rightarrow> real \<Rightarrow> real \<Rightarrow> real \<Rightarrow> real \<Rightarrow> real" where
  "spec_d2 S K T r_d r_f \<sigma> = spec_d1 S K T r_d r_f \<sigma> - \<sigma> * sqrt T"

definition spec_call_pv :: "real \<Rightarrow> real \<Rightarrow> real \<Rightarrow> real \<Rightarrow> real \<Rightarrow> real \<Rightarrow> real" where
  "spec_call_pv S K T r_d r_f \<sigma> =
     S * exp (- r_f * T) * norm_cdf (spec_d1 S K T r_d r_f \<sigma>) -
     K * exp (- r_d * T) * norm_cdf (spec_d2 S K T r_d r_f \<sigma>)"

definition spec_put_pv :: "real \<Rightarrow> real \<Rightarrow> real \<Rightarrow> real \<Rightarrow> real \<Rightarrow> real \<Rightarrow> real" where
  "spec_put_pv S K T r_d r_f \<sigma> =
     K * exp (- r_d * T) * norm_cdf (- spec_d2 S K T r_d r_f \<sigma>) -
     S * exp (- r_f * T) * norm_cdf (- spec_d1 S K T r_d r_f \<sigma>)"

text \<open>A trade that the constructor of \<open>ValidatedTrade\<close> accepts.\<close>

definition valid_trade :: "ValidatedTrade \<Rightarrow> bool" where
  "valid_trade t =
     (field_errors t = [] \<and> volatility t \<le> 1 \<and> notional_currency t \<in> set [''USD'', ''JPY''])"

text \<open>
  The fields of a \<open>ValidatedTrade\<close> by name, as pydantic holds them. A member of a
  string enum is shown by its value, to which it is equal as a string.
\<close>

datatype field_value = StrV string | FloatV real

definition ValidatedTrade_dump :: "ValidatedTrade \<Rightarrow> (string \<times> field_value) list" where
  "ValidatedTrade_dump t =
     [(''trade_id'', StrV (trade_id t)),
      (''currency_pair'', StrV (CurrencyPair_value (currency_pair t))),
      (''option_type'', StrV (OptionType_value (option_type t))),
      (''strike'', FloatV (strike t)),
      (''notional'', FloatV (notional t)),
      (''notional_currency'', StrV (notional_currency t)),
      (''time_to_expiry'', FloatV (time_to_expiry t)),
      (''spot'', FloatV (spot t)),
      (''volatility'', FloatV (volatility t)),
      (''domestic_rate'', FloatV (domestic_rate t)),
      (''foreign_rate'', FloatV (foreign_rate t))]"

record PricedTrade =
  trade_id :: string
  currency_pair :: string
  option_type :: string
  strike :: real
  notional :: real
  notional_currency :: string
  spot :: real
  time_to_expiry :: real
  volatility :: real
  pv :: real
  delta :: real
  vega :: real

definition PricedTrade_dump :: "PricedTrade \<Rightarrow> (string \<times> field_value) list" where
  "PricedTrade_dump p =
     [(''trade_id'', StrV (PricedTrade.trade_id p)),
      (''currency_pair'', StrV (PricedTrade.currency_pair p)),
      (''option_type'', StrV (PricedTrade.option_type p)),
      (''strike'', FloatV (PricedTrade.strike p)),
      (''notional'', FloatV (PricedTrade.notional p)),
      (''notional_currency'', StrV (PricedTrade.notional_currency p)),
      (''spot'', FloatV (PricedTrade.spot p)),
      (''time_to_expiry'', FloatV (PricedTrade.time_to_expiry p)),
      (''volatility'', FloatV (PricedTrade.volatility p)),
      (''pv'', FloatV (pv p)),
      (''delta'', FloatV (delta p)),
      (''vega'', FloatV (vega p))]"

text \<open>The body of the loop of \<open>price_portfolio\<close>, and the loop with its accumulator.\<close>

definition price_trade :: "ValidatedTrade \<Rightarrow> PricedTrade" where
  "price_trade trade =
     \<lparr>PricedTrade.trade_id = ValidatedTrade.trade_id trade,
      PricedTrade.currency_pair = CurrencyPair_value (ValidatedTrade.currency_pair trade),
      PricedTrade.option_type = OptionType_value (ValidatedTrade.option_type trade),
      PricedTrade.strike = ValidatedTrade.strike trade,
      PricedTrade.notional = ValidatedTrade.notional trade,
      PricedTrade.notional_currency = ValidatedTrade.notional_currency trade,
      PricedTrade.spot = ValidatedTrade.spot trade,
      PricedTrade.time_to_expiry = ValidatedTrade.time_to_expiry trade,
      PricedTrade.volatility = ValidatedTrade.volatility trade,
      pv = calculate_pv trade,
      delta = calculate_delta trade,
      vega = calculate_vega trade\<rparr>"

fun price_loop :: "ValidatedTrade list \<Rightarrow> PricedTrade list \<Rightarrow> PricedTrade list" where
  "price_loop [] priced_trades = priced_trades"
| "price_loop (trade # rest) priced_trades =
     price_loop rest (priced_trades @ [price_trade trade])"

definition price_portfolio :: "ValidatedTrade list \<Rightarrow> PricedTrade list" where
  "price_portfolio trades = price_loop trades []"

section \<open>Aggregator (services/aggregator.py)\<close>

datatype date = Date int int int

record PortfolioSummary =
  total_trades :: nat
  total_pv :: real
  total_delta :: real
  total_vega :: real
  valuation_date :: date
  reporting_currency :: string

text \<open>Division of two Python floats: a zero divisor raises.\<close>

definition float_div :: "real \<Rightarrow> real \<Rightarrow> exn + real" where
  "float_div a b = (if b = 0 then Inl ZeroDivisionError else Inr (a / b))"

definition to_reporting_currency :: "real \<Rightarrow> PricedTrade \<Rightarrow> string \<Rightarrow> exn + real" where
  "to_reporting_currency amount trade reporting_ccy =
     (let trade_ccy = upper (PricedTrade.notional_currency trade);
          reporting_ccy' = upper reporting_ccy
      in if trade_ccy = reporting_ccy' then Inr amount
         else if PricedTrade.currency_pair trade = ''USDJPY'' \<and>
                 trade_ccy = ''JPY'' \<and> reporting_ccy' = ''USD'' then
           float_div amount (PricedTrade.spot trade)
         else if PricedTrade.currency_pair trade = ''USDJPY'' \<and>
                 trade_ccy = ''USD'' \<and> reporting_ccy' = ''JPY'' then
           Inr (amount * PricedTrade.spot trade)
         else
           Inl (ValueError (''Unsupported conversion '' @ trade_ccy @ ''->'' @ reporting_ccy' @
                            '' for '' @ PricedTrade.currency_pair trade)))"

text \<open>
  The loop of \<open>aggregate_portfolio\<close> over the three running totals; an exception of a
  conversion leaves the loop and the function.
\<close>

fun aggregate_loop ::
  "string \<Rightarrow> PricedTrade list \<Rightarrow> real \<times> real \<times> real \<Rightarrow> exn + (real \<times> real \<times> real)" where
  "aggregate_loop reporting_ccy [] totals = Inr totals"
| "aggregate_loop reporting_ccy (trade # rest) (tot_pv, tot_delta, tot_vega) =
     (case to_reporting_currency (pv trade) trade reporting_ccy of
        Inl e \<Rightarrow> Inl e
      | Inr a \<Rightarrow>
          (case to_reporting_currency (delta trade) trade reporting_ccy of
             Inl e \<Rightarrow> Inl e
           | Inr b \<Rightarrow>
               (case to_reporting_currency (vega trade) trade reporting_ccy of
                  Inl e \<Rightarrow> Inl e
                | Inr c \<Rightarrow>
                    aggregate_loop reporting_ccy rest (tot_pv + a, tot_delta + b, tot_vega + c))))"

text \<open>\<open>today\<close> is what \<open>date.today()\<close> returns when no valuation date is given.\<close>

definition aggregate_portfolio ::
  "date \<Rightarrow> PricedTrade list \<Rightarrow> date option \<Rightarrow> string \<Rightarrow> exn + PortfolioSummary" where
  "aggregate_portfolio today priced_trades valuation_date_arg reporting_ccy =
     (let the_date = (case valuation_date_arg of None \<Rightarrow> today | Some d \<Rightarrow> d)
      in case aggregate_loop reporting_ccy priced_trades (0, 0, 0) of
           Inl e \<Rightarrow> Inl e
         | Inr (tot_pv, tot_delta, tot_vega) \<Rightarrow>
             Inr \<lparr>total_trades = length priced_trades,
                  total_pv = tot_pv,
                  total_delta = tot_delta,
                  total_vega = tot_vega,
                  valuation_date = the_date,
                  reporting_currency = reporting_ccy\<rparr>)"

section \<open>Example inputs\<close>

text \<open>
  A rendering of the library text by fixed placeholders, for evaluating messages on
  concrete records.
\<close>

definition plain_text :: py_text where
  "plain_text =
     \<lparr>str_float = (\<lambda>x. ''<float>''), format_pct2 = (\<lambda>x. ''<percent>''),
      str_ValidationError = (\<lambda>es. ''<ValidationError>'')\<rparr>"

text \<open>The valid record of \<open>tests.py\<close>, and the same record with an unknown option type.\<close>

definition raw_T001 :: RawTrade where
  "raw_T001 =
     \<lparr>TradeID = ''T001'', Underlying = ''EUR/USD'', Notional = 1000000,
      NotionalCurrency = ''USD'', Spot = 11 / 10, Strike = 11 / 10, Vol = 1 / 100,
      RateDomestic = 1 / 100, RateForeign = 1 / 100, Expiry = 1 / 4, OptionType = ''Call''\<rparr>"

definition raw_T002 :: RawTrade where
  "raw_T002 = raw_T001\<lparr>TradeID := ''T002'', OptionType := ''INVALID''\<rparr>"

text \<open>\<open>casing_of w s\<close>: \<open>s\<close> is the lower-case word \<open>w\<close> with any of its letters capitalised.\<close>

definition casing_of :: "string \<Rightarrow> string \<Rightarrow> bool" where
  "casing_of w s = list_all2 (\<lambda>c d. d = c \<or> d = upper_char c) w s"

text \<open>
  A ten-year at-the-money call on a currency with a negative interest rate, and the same
  trade as a put. Both are within every bound of \<open>ValidatedTrade\<close>.
\<close>

definition long_call :: ValidatedTrade where
  "long_call =
     \<lparr>ValidatedTrade.trade_id = ''T100'', currency_pair = EURUSD, option_type = CALL,
      strike = 1, notional = 1000000, notional_currency = ''USD'', time_to_expiry = 10,
      spot = 1, volatility = 1 / 2, domestic_rate = 1 / 100, foreign_rate = - (1 / 10)\<rparr>"

definition long_put :: ValidatedTrade where
  "long_put = long_call\<lparr>ValidatedTrade.option_type := PUT\<rparr>"

text \<open>Two priced trades: a yen-denominated USDJPY trade and a dollar-denominated EURUSD trade.\<close>

definition priced_jpy :: PricedTrade where
  "priced_jpy =
     \<lparr>PricedTrade.trade_id = ''T201'', currency_pair = ''USDJPY'', option_type = ''CALL'',
      strike = 150, notional = 1000000, notional_currency = ''JPY'', spot = 150,
      time_to_expiry = 1 / 2, volatility = 1 / 10, pv = 3000, delta = 600, vega = 90\<rparr>"

definition priced_usd :: PricedTrade where
  "priced_usd =
     \<lparr>PricedTrade.trade_id = ''T202'', currency_pair = ''EURUSD'', option_type = ''PUT'',
      strike = 11 / 10, notional = 500000, notional_currency = ''USD'', spot = 11 / 10,
      time_to_expiry = 1 / 4, volatility = 1 / 10, pv = 20, delta = - 5, vega = 2\<rparr>"

section \<open>The validator returns a partition of its input\<close>

lemma validate_loop_acc:
  "validate_loop P rs valid errs =
     (valid @ fst (validate_loop P rs [] []), errs @ snd (validate_loop P rs [] []))"
proof (induction rs arbitrary: valid errs)
  case Nil
  show ?case by simp
next
  case (Cons r rs)
  show ?case
  proof (cases "validate_single_trade P r")
    case (Inl e)
    then show ?thesis
      using Cons.IH [of valid "errs @ [''Trade '' @ TradeID r @ '': '' @ str_exn e]"]
            Cons.IH [of "[]" "[''Trade '' @ TradeID r @ '': '' @ str_exn e]"]
      by simp
  next
    case (Inr v)
    then show ?thesis
      using Cons.IH [of "valid @ [v]" errs] Cons.IH [of "[v]" "[]"]
      by simp
  qed
qed

lemma validate_trades_Nil: "validate_trades P [] = \<lparr>valid_trades = [], errors = []\<rparr>"
  by (simp add: validate_trades_def)

lemma validate_trades_Cons:
  "validate_trades P (r # rs) =
     (case validate_single_trade P r of
        Inr v \<Rightarrow> \<lparr>valid_trades = v # valid_trades (validate_trades P rs),
                  errors = errors (validate_trades P rs)\<rparr>
      | Inl e \<Rightarrow> \<lparr>valid_trades = valid_trades (validate_trades P rs),
                  errors = (''Trade '' @ TradeID r @ '': '' @ str_exn e) #
                           errors (validate_trades P rs)\<rparr>)"
proof (cases "validate_single_trade P r")
  case (Inl e)
  then show ?thesis
    using validate_loop_acc [of P rs "[]" "[''Trade '' @ TradeID r @ '': '' @ str_exn e]"]
    by (simp add: validate_trades_def split: prod.splits)
next
  case (Inr v)
  then show ?thesis
    using validate_loop_acc [of P rs "[v]" "[]"]
    by (simp add: validate_trades_def split: prod.splits)
qed

lemma valid_trades_filter:
  "valid_trades (validate_trades P rs) =
     map (\<lambda>r. projr (validate_single_trade P r))
       (filter (\<lambda>r. \<not> isl (validate_single_trade P r)) rs)"
proof (induction rs)
  case Nil
  show ?case by (simp add: validate_trades_Nil)
next
  case (Cons r rs)
  then show ?case
    by (cases "validate_single_trade P r") (simp_all add: validate_trades_Cons)
qed

lemma errors_filter:
  "errors (validate_trades P rs) =
     map (\<lambda>r. ''Trade '' @ TradeID r @ '': '' @ str_exn (projl (validate_single_trade P r)))
       (filter (\<lambda>r. isl (validate_single_trade P r)) rs)"
proof (induction rs)
  case Nil
  show ?case by (simp add: validate_trades_Nil)
next
  case (Cons r rs)
  then show ?case
    by (cases "validate_single_trade P r") (simp_all add: validate_trades_Cons)
qed

text \<open>
  C3: \<open>validate_trades\<close> evaluates \<open>validate_single_trade\<close> on every record, whatever
  the outcome on the others. The valid trades are the results of the records that validate,
  in input order; the errors are the messages \<open>Trade <trade_id>: <reason>\<close> of the records
  that do not, in input order, where the reason is the text of the exception. Every record
  contributes to exactly one of the two, so the two lengths sum to the length of the input,
  and \<open>is_valid\<close> holds exactly when there is no error.
\<close>

theorem validate_trades_partition:
  "valid_trades (validate_trades P rs) =
     map (\<lambda>r. projr (validate_single_trade P r))
       (filter (\<lambda>r. \<not> isl (validate_single_trade P r)) rs) \<and>
   errors (validate_trades P rs) =
     map (\<lambda>r. ''Trade '' @ TradeID r @ '': '' @ str_exn (projl (validate_single_trade P r)))
       (filter (\<lambda>r. isl (validate_single_trade P r)) rs) \<and>
   length (valid_trades (validate_trades P rs)) + length (errors (validate_trades P rs)) =
     length rs \<and>
   is_valid (validate_trades P rs) = (errors (validate_trades P rs) = [])"
proof -
  have "length (filter (\<lambda>r. \<not> isl (validate_single_trade P r)) rs) +
        length (filter (\<lambda>r. isl (validate_single_trade P r)) rs) = length rs"
    using sum_length_filter_compl [of "\<lambda>r. isl (validate_single_trade P r)" rs] by simp
  then have "length (valid_trades (validate_trades P rs)) +
             length (errors (validate_trades P rs)) = length rs"
    by (simp only: valid_trades_filter errors_filter length_map)
  moreover have "is_valid (validate_trades P rs) = (errors (validate_trades P rs) = [])"
    by (simp add: is_valid_def)
  ultimately show ?thesis
    using valid_trades_filter [of P rs] errors_filter [of P rs] by blast
qed

section \<open>When a record validates\<close>

lemma field_errors_Nil_iff:
  "field_errors t = [] \<longleftrightarrow>
     0 < ValidatedTrade.strike t \<and> 0 < ValidatedTrade.notional t \<and> 0 < ValidatedTrade.time_to_expiry t \<and> ValidatedTrade.time_to_expiry t \<le> 10 \<and>
     0 < ValidatedTrade.spot t \<and> 0 < ValidatedTrade.volatility t \<and> ValidatedTrade.volatility t \<le> 5 \<and>
     - (1 / 10) \<le> ValidatedTrade.domestic_rate t \<and> ValidatedTrade.domestic_rate t \<le> 1 \<and>
     - (1 / 10) \<le> ValidatedTrade.foreign_rate t \<and> ValidatedTrade.foreign_rate t \<le> 1"
  unfolding field_errors_def by (simp only: append_is_Nil_conv) (simp split: if_splits)

lemma ValidatedTrade_init_ok_iff:
  "(\<not> isl (ValidatedTrade_init P t)) = valid_trade t"
proof (cases "field_errors t")
  case Nil
  then have "ValidatedTrade_init P t =
               (case validate_business_rules P t of
                  Inl e \<Rightarrow> Inl [value_error (str_exn e)] | Inr t' \<Rightarrow> Inr t')"
    by (simp add: ValidatedTrade_init_def)
  then show ?thesis
    using Nil by (simp add: valid_trade_def validate_business_rules_def)
next
  case (Cons e es)
  then show ?thesis
    by (simp add: ValidatedTrade_init_def valid_trade_def)
qed

lemma ValidatedTrade_init_Inr: "ValidatedTrade_init P t = Inr t' \<Longrightarrow> t' = t"
  unfolding ValidatedTrade_init_def validate_business_rules_def
  by (auto split: list.splits if_splits)

lemma OptionType_of_simps:
  "OptionType_of s = (if s = ''CALL'' then Some CALL else if s = ''PUT'' then Some PUT else None)"
  by (simp add: OptionType_of_def OptionType_members_def)

lemma validate_single_trade_ok_iff:
  "(\<not> isl (validate_single_trade P r)) =
     (OptionType_of (upper (OptionType r)) \<noteq> None \<and>
      CurrencyPair_of (upper (remove_char CHR '' '' (remove_char CHR ''/'' (Underlying r)))) \<noteq> None \<and>
      0 < Strike r \<and> 0 < Notional r \<and> 0 < Expiry r \<and> Expiry r \<le> 10 \<and> 0 < Spot r \<and>
      0 < Vol r \<and> Vol r \<le> 1 \<and>
      - (1 / 10) \<le> RateDomestic r \<and> RateDomestic r \<le> 1 \<and>
      - (1 / 10) \<le> RateForeign r \<and> RateForeign r \<le> 1 \<and>
      NotionalCurrency r \<in> set [''USD'', ''JPY''])"
proof (cases "OptionType_of (upper (OptionType r))")
  case None
  then show ?thesis by (simp add: validate_single_trade_def)
next
  case ot: (Some ot)
  show ?thesis
  proof (cases "CurrencyPair_of (upper (remove_char CHR '' '' (remove_char CHR ''/'' (Underlying r))))")
    case None
    then show ?thesis using ot by (simp add: validate_single_trade_def)
  next
    case cp: (Some cp)
    let ?t = "\<lparr>ValidatedTrade.trade_id = TradeID r, currency_pair = cp, option_type = ot,
               strike = Strike r, notional = Notional r, notional_currency = NotionalCurrency r,
               time_to_expiry = Expiry r, spot = Spot r, volatility = Vol r,
               domestic_rate = RateDomestic r, foreign_rate = RateForeign r\<rparr>"
    have v: "validate_single_trade P r =
               (if Expiry r \<le> 0 then
                  Inl (ValueError (''Expiry must be positive, got '' @ str_float P (Expiry r)))
                else case ValidatedTrade_init P ?t of
                       Inl e \<Rightarrow> Inl (ValueError (''Validation error: '' @ str_ValidationError P e))
                     | Inr t \<Rightarrow> Inr t)"
      using ot cp by (simp add: validate_single_trade_def)
    have i: "(\<not> isl (ValidatedTrade_init P ?t)) = valid_trade ?t"
      by (rule ValidatedTrade_init_ok_iff)
    show ?thesis
    proof (cases "Expiry r \<le> 0")
      case True
      then show ?thesis using v by simp
    next
      case False
      then have "(\<not> isl (validate_single_trade P r)) = valid_trade ?t"
        using v i by (cases "ValidatedTrade_init P ?t") simp_all
      then show ?thesis
        using ot cp False by (simp add: valid_trade_def field_errors_Nil_iff) linarith
    qed
  qed
qed

lemma upper_CALL:
  "upper ''call'' = ''CALL''" "upper ''Call'' = ''CALL''" "upper ''CALL'' = ''CALL''"
  by code_simp+

lemma upper_char_letters:
  "upper_char CHR ''c'' = CHR ''C''" "upper_char CHR ''a'' = CHR ''A''"
  "upper_char CHR ''l'' = CHR ''L''" "upper_char CHR ''p'' = CHR ''P''"
  "upper_char CHR ''u'' = CHR ''U''" "upper_char CHR ''t'' = CHR ''T''"
  "upper_char CHR ''C'' = CHR ''C''" "upper_char CHR ''A'' = CHR ''A''"
  "upper_char CHR ''L'' = CHR ''L''" "upper_char CHR ''P'' = CHR ''P''"
  "upper_char CHR ''U'' = CHR ''U''" "upper_char CHR ''T'' = CHR ''T''"
  by code_simp+

lemma casing_call: "casing_of ''call'' s \<Longrightarrow> upper s = ''CALL''"
  unfolding casing_of_def upper_def
  by (auto simp: list_all2_Cons1 upper_char_letters)

lemma casing_put: "casing_of ''put'' s \<Longrightarrow> upper s = ''PUT''"
  unfolding casing_of_def upper_def
  by (auto simp: list_all2_Cons1 upper_char_letters)

lemma validate_single_trade_option_type:
  assumes "validate_single_trade P r = Inr t"
  shows "OptionType_of (upper (OptionType r)) = Some (ValidatedTrade.option_type t)"
proof (cases "OptionType_of (upper (OptionType r))")
  case None
  then show ?thesis using assms by (simp add: validate_single_trade_def)
next
  case ot: (Some ot)
  show ?thesis
  proof (cases "CurrencyPair_of (upper (remove_char CHR '' '' (remove_char CHR ''/'' (Underlying r))))")
    case None
    then show ?thesis using ot assms by (simp add: validate_single_trade_def)
  next
    case cp: (Some cp)
    show ?thesis
      using ot cp assms
      by (auto simp: validate_single_trade_def split: if_splits sum.splits
               dest!: ValidatedTrade_init_Inr)
  qed
qed

section \<open>Properties of the normal distribution function\<close>

text \<open>
  The series of \<open>gauss_int\<close> converges everywhere and its derivative is the Gaussian kernel;
  hence \<open>gauss_int\<close> is odd, strictly increasing and bounded, \<open>gauss_mass\<close> is positive, and
  \<open>norm_cdf\<close> is strictly increasing with values strictly between 0 and 1, supremum 1 and
  \<open>norm_cdf (- x) = 1 - norm_cdf x\<close>.
\<close>

lemma diffs_gk_even: "diffs gk_coeff (2 * k) = (- (1/2)) ^ k / fact k"
  by (simp add: diffs_def gk_coeff_def)

lemma diffs_gk_odd: "diffs gk_coeff (Suc (2 * k)) = 0"
  by (simp add: diffs_def gk_coeff_def)

lemma half_sq_power: "(- (x\<^sup>2) / 2) ^ k = (- (1/2)) ^ k * x ^ (2 * k)" for x :: real
proof -
  have "(- (x\<^sup>2) / 2) ^ k = ((- (1/2)) * x\<^sup>2) ^ k"
    by (rule arg_cong [where f = "\<lambda>a. a ^ k"]) simp
  also have "\<dots> = (- (1/2)) ^ k * (x\<^sup>2) ^ k" by (rule power_mult_distrib)
  also have "(x\<^sup>2) ^ k = x ^ (2 * k)" by (simp add: power_mult)
  finally show ?thesis .
qed

lemma kernel_term:
  "diffs gk_coeff n * x ^ n = (if even n then (- (x\<^sup>2) / 2) ^ (n div 2) /\<^sub>R fact (n div 2) else 0)"
proof (cases "even n")
  case True
  then obtain k where k: "n = 2 * k" by (rule evenE)
  have "diffs gk_coeff (2 * k) * x ^ (2 * k) = (- (x\<^sup>2) / 2) ^ k /\<^sub>R fact k"
    unfolding diffs_gk_even half_sq_power by (simp add: field_simps)
  then show ?thesis unfolding k by simp
next
  case False
  then obtain k where k: "n = 2 * k + 1" by (rule oddE)
  have "diffs gk_coeff (Suc (2 * k)) * x ^ Suc (2 * k) = 0" unfolding diffs_gk_odd by simp
  then show ?thesis unfolding k by simp
qed

lemma kernel_sums: "(\<lambda>n. diffs gk_coeff n * x ^ n) sums exp (- (x\<^sup>2) / 2)"
proof -
  have e: "(\<lambda>k. (- (x\<^sup>2) / 2) ^ k /\<^sub>R fact k) sums exp (- (x\<^sup>2) / 2)"
    by (rule exp_converges)
  have z: "(\<lambda>k. 0::real) sums 0" by simp
  have "(\<lambda>n. if even n then (- (x\<^sup>2) / 2) ^ (n div 2) /\<^sub>R fact (n div 2) else 0) sums (0 + exp (- (x\<^sup>2) / 2))"
    by (rule sums_if [OF z e])
  then show ?thesis unfolding kernel_term by simp
qed

lemma gauss_term_bound: "norm (gauss_term x k) \<le> \<bar>x\<bar> * ((x\<^sup>2 / 2) ^ k /\<^sub>R fact k)"
proof -
  have p: "(x\<^sup>2 / 2) ^ k = (1/2) ^ k * \<bar>x\<bar> ^ (2 * k)"
    by (simp add: power_divide power_mult power_one_over)
  have n: "norm (gauss_term x k) = (1/2) ^ k * \<bar>x\<bar> ^ (2 * k) * \<bar>x\<bar> / (fact k * real (2 * k + 1))"
    by (simp add: gauss_term_def abs_mult power_abs)
  have "(1/2) ^ k * \<bar>x\<bar> ^ (2 * k) * \<bar>x\<bar> / (fact k * real (2 * k + 1))
        \<le> (1/2) ^ k * \<bar>x\<bar> ^ (2 * k) * \<bar>x\<bar> / (fact k * 1)"
    by (intro divide_left_mono mult_left_mono mult_nonneg_nonneg mult_pos_pos) simp_all
  then show ?thesis unfolding n p by (simp add: field_simps)
qed

lemma gauss_term_summable: "summable (gauss_term x)"
proof (rule summable_comparison_test)
  show "\<exists>N. \<forall>n\<ge>N. norm (gauss_term x n) \<le> \<bar>x\<bar> * ((x\<^sup>2 / 2) ^ n /\<^sub>R fact n)"
    using gauss_term_bound by blast
  show "summable (\<lambda>n. \<bar>x\<bar> * ((x\<^sup>2 / 2) ^ n /\<^sub>R fact n))"
    by (intro summable_mult sums_summable [OF exp_converges])
qed

lemma gauss_term_sums: "gauss_term x sums gauss_int x"
  unfolding gauss_int_def by (rule summable_sums [OF gauss_term_summable])

lemma gk_coeff_term: "gk_coeff n * x ^ n = (if even n then 0 else gauss_term x ((n - 1) div 2))"
proof (cases "even n")
  case True
  then show ?thesis by (simp add: gk_coeff_def)
next
  case False
  then obtain k where k: "n = 2 * k + 1" by (rule oddE)
  have "gk_coeff (2 * k + 1) * x ^ (2 * k + 1) = gauss_term x k"
    by (simp add: gk_coeff_def gauss_term_def)
  then show ?thesis unfolding k by simp
qed

lemma gk_powser_sums: "(\<lambda>n. gk_coeff n * x ^ n) sums gauss_int x"
  using sums_if' [OF gauss_term_sums [of x]] by (simp add: gk_coeff_term)

lemma gauss_int_powser: "gauss_int = (\<lambda>x. \<Sum>n. gk_coeff n * x ^ n)"
  using gk_powser_sums by (auto simp: sums_iff)

lemma DERIV_gauss_int: "(gauss_int has_real_derivative exp (- (x\<^sup>2) / 2)) (at x)"
proof -
  have s: "\<And>y. summable (\<lambda>n. gk_coeff n * y ^ n)"
    using gk_powser_sums by (rule sums_summable)
  have "((\<lambda>x. \<Sum>n. gk_coeff n * x ^ n) has_real_derivative (\<Sum>n. diffs gk_coeff n * x ^ n)) (at x)"
    by (rule termdiffs_strong_converges_everywhere [OF s])
  moreover have "(\<Sum>n. diffs gk_coeff n * x ^ n) = exp (- (x\<^sup>2) / 2)"
    using kernel_sums [of x] by (simp add: sums_iff)
  ultimately show ?thesis by (simp add: gauss_int_powser)
qed

lemma gauss_int_0: "gauss_int 0 = 0"
  by (simp add: gauss_int_def gauss_term_def)

lemma gauss_int_minus: "gauss_int (- x) = - gauss_int x"
proof -
  have "gauss_term (- x) = (\<lambda>k. - gauss_term x k)"
    by (rule ext) (simp add: gauss_term_def)
  then show ?thesis
    by (simp add: gauss_int_def suminf_minus [OF gauss_term_summable])
qed

lemma gauss_int_strict_mono:
  assumes "a < b"
  shows "gauss_int a < gauss_int b"
proof (rule DERIV_pos_imp_increasing [OF assms])
  fix x
  assume "a \<le> x" "x \<le> b"
  have "0 < exp (- (x\<^sup>2) / 2)" by simp
  with DERIV_gauss_int [of x]
  show "\<exists>y. (gauss_int has_real_derivative y) (at x) \<and> 0 < y" by blast
qed

lemma gauss_int_tail:
  assumes "1 \<le> x"
  shows "gauss_int x \<le> gauss_int 1 + 2"
proof -
  let ?h = "\<lambda>x. gauss_int x + 2 * exp (- x / 2)"
  have "?h x \<le> ?h 1"
  proof (rule DERIV_nonpos_imp_nonincreasing [OF assms])
    fix y :: real assume y: "1 \<le> y" "y \<le> x"
    have e: "((\<lambda>x. 2 * exp (- x / 2)) has_real_derivative - exp (- y / 2)) (at y)"
      by (auto intro!: derivative_eq_intros)
    have d: "(?h has_real_derivative (exp (- (y\<^sup>2) / 2) + - exp (- y / 2))) (at y)"
      by (rule DERIV_add [OF DERIV_gauss_int e])
    have "y * 1 \<le> y * y" using y by (intro mult_left_mono) simp_all
    then have "y \<le> y\<^sup>2" by (simp add: power2_eq_square)
    then have "exp (- (y\<^sup>2) / 2) \<le> exp (- y / 2)" by simp
    then have "exp (- (y\<^sup>2) / 2) + - exp (- y / 2) \<le> 0" by simp
    with d show "\<exists>z. (?h has_real_derivative z) (at y) \<and> z \<le> 0" by blast
  qed
  moreover have "2 * exp (- 1 / 2) \<le> (2::real)" by simp
  moreover have "0 \<le> 2 * exp (- x / 2)" by simp
  ultimately show ?thesis by linarith
qed

lemma gauss_int_bounded: "gauss_int x \<le> gauss_int 1 + 2"
proof (cases "1 \<le> x")
  case True then show ?thesis by (rule gauss_int_tail)
next
  case False
  then have "gauss_int x < gauss_int 1" by (intro gauss_int_strict_mono) simp
  then show ?thesis by simp
qed

lemma bdd_above_gauss_int: "bdd_above (range gauss_int)"
  using gauss_int_bounded by (auto simp: bdd_above_def)

lemma gauss_int_less_mass: "gauss_int x < gauss_mass"
proof -
  have "gauss_int x < gauss_int (x + 1)" by (rule gauss_int_strict_mono) simp
  also have "\<dots> \<le> gauss_mass"
    unfolding gauss_mass_def by (rule cSup_upper [OF _ bdd_above_gauss_int]) simp
  finally show ?thesis .
qed

lemma gauss_mass_pos: "0 < gauss_mass"
  using gauss_int_less_mass [of 0] by (simp add: gauss_int_0)

lemma gauss_int_greater: "- gauss_mass < gauss_int x"
  using gauss_int_less_mass [of "- x"] by (simp add: gauss_int_minus)

lemma norm_cdf_pos: "0 < norm_cdf x"
  unfolding norm_cdf_def using gauss_int_greater [of x] gauss_mass_pos by simp

lemma norm_cdf_less_1: "norm_cdf x < 1"
  unfolding norm_cdf_def using gauss_int_less_mass [of x] gauss_mass_pos by simp

lemma norm_cdf_minus: "norm_cdf (- x) = 1 - norm_cdf x"
  unfolding norm_cdf_def using gauss_mass_pos by (simp add: gauss_int_minus field_simps)

lemma norm_cdf_0: "norm_cdf 0 = 1 / 2"
  unfolding norm_cdf_def using gauss_mass_pos by (simp add: gauss_int_0)

lemma norm_cdf_strict_mono: "a < b \<Longrightarrow> norm_cdf a < norm_cdf b"
  unfolding norm_cdf_def using gauss_int_strict_mono [of a b] gauss_mass_pos
  by (simp add: divide_strict_right_mono)

lemma DERIV_norm_cdf: "(norm_cdf has_real_derivative exp (- (x\<^sup>2) / 2) / (2 * gauss_mass)) (at x)"
proof -
  have "((\<lambda>x. (gauss_mass + gauss_int x) / (2 * gauss_mass)) has_real_derivative
          (0 + exp (- (x\<^sup>2) / 2)) / (2 * gauss_mass)) (at x)"
    by (intro DERIV_cdivide DERIV_add DERIV_const DERIV_gauss_int)
  then show ?thesis by (simp add: norm_cdf_def [abs_def])
qed

lemma norm_cdf_sup: "\<exists>x. 1 - e < norm_cdf x" if "0 < e"
proof -
  have "gauss_mass - 2 * gauss_mass * e < Sup (range gauss_int)"
    using that gauss_mass_pos by (simp add: gauss_mass_def)
  then obtain y where "y \<in> range gauss_int" "gauss_mass - 2 * gauss_mass * e < y"
    using less_cSup_iff [of "range gauss_int"] bdd_above_gauss_int by auto
  then obtain x where x: "gauss_mass - 2 * gauss_mass * e < gauss_int x" by auto
  have "1 - e < norm_cdf x"
    unfolding norm_cdf_def using x gauss_mass_pos by (simp add: field_simps)
  then show ?thesis ..
qed

end
